theory Spec2Isabelle
  imports Main "HOL-Library.Sublist"
begin

section \<open>Python strings\<close>

text \<open>
  A Python \<open>str\<close> is a sequence of code points and \<open>len\<close> counts code points. The
  model reads an Isabelle \<open>char\<close> as the code point of the same number (not as a byte of
  an encoding), so a \<open>string\<close> is a Python string over U+0000 .. U+00FF, one \<open>char\<close> per
  code point. Every literal of the program lies in that range. The character classes
  below are those of CPython's \<open>str.isspace\<close>, \<open>str.isdigit\<close> and \<open>str.isprintable\<close>
  on that range.
\<close>

definition isspace_char :: "char \<Rightarrow> bool" where
  "isspace_char c =
     (let n = (of_char c :: nat)
      in (9 \<le> n \<and> n \<le> 13) \<or> (28 \<le> n \<and> n \<le> 32) \<or> n = 133 \<or> n = 160)"

text \<open>
  \<open>str.isdigit\<close> holds of the ten decimal digits and also of the superscript digits
  U+00B2, U+00B3 and U+00B9, which are digits but not decimal digits.
\<close>

definition isdecimal_char :: "char \<Rightarrow> bool" where
  "isdecimal_char c = (let n = (of_char c :: nat) in 48 \<le> n \<and> n \<le> 57)"

definition isdigit_char :: "char \<Rightarrow> bool" where
  "isdigit_char c =
     (let n = (of_char c :: nat)
      in (48 \<le> n \<and> n \<le> 57) \<or> n = 178 \<or> n = 179 \<or> n = 185)"

definition isprintable_char :: "char \<Rightarrow> bool" where
  "isprintable_char c =
     (let n = (of_char c :: nat)
      in (32 \<le> n \<and> n \<le> 126) \<or> (161 \<le> n \<and> n \<noteq> 173))"

text \<open>\<open>s.strip()\<close>: drop the whitespace at both ends.\<close>

definition lstrip :: "string \<Rightarrow> string" where
  "lstrip s = dropWhile isspace_char s"

definition rstrip :: "string \<Rightarrow> string" where
  "rstrip s = rev (dropWhile isspace_char (rev s))"

definition strip :: "string \<Rightarrow> string" where
  "strip s = rstrip (lstrip s)"

text \<open>\<open>s.startswith(p)\<close>.\<close>

definition startswith :: "string \<Rightarrow> string \<Rightarrow> bool" where
  "startswith s p = (take (length p) s = p)"

text \<open>\<open>s.isdigit()\<close>: at least one character, and every character a digit.\<close>

definition isdigit :: "string \<Rightarrow> bool" where
  "isdigit s = (s \<noteq> [] \<and> list_all isdigit_char s)"

text \<open>\<open>s.replace(c, "")\<close> for a one-character \<open>c\<close>: every occurrence is deleted.\<close>

definition replace_with_empty :: "string \<Rightarrow> char \<Rightarrow> string" where
  "replace_with_empty s c = filter (\<lambda>x. x \<noteq> c) s"

text \<open>
  \<open>repr(s)\<close>, which the format spec \<open>!r\<close> applies. The quote is the double quote when
  the string has a single quote and no double quote, and the single quote otherwise;
  the quote and the backslash are escaped with a backslash, tab, newline and carriage
  return are written \<open>\\t\<close>, \<open>\\n\<close>, \<open>\\r\<close>, and every other character that is not
  printable is written \<open>\\xhh\<close>.
\<close>

definition hexdigit :: "nat \<Rightarrow> char" where
  "hexdigit n = ''0123456789abcdef'' ! (n mod 16)"

definition repr_quote :: "string \<Rightarrow> char" where
  "repr_quote s =
     (if CHR 0x27 \<in> set s \<and> CHR 0x22 \<notin> set s then CHR 0x22 else CHR 0x27)"

definition repr_char :: "char \<Rightarrow> char \<Rightarrow> string" where
  "repr_char q c =
     (if c = q \<or> c = CHR 0x5C then [CHR 0x5C, c]
      else if c = CHR 0x09 then [CHR 0x5C, CHR ''t'']
      else if c = CHR 0x0A then [CHR 0x5C, CHR ''n'']
      else if c = CHR 0x0D then [CHR 0x5C, CHR ''r'']
      else if \<not> isprintable_char c
        then [CHR 0x5C, CHR ''x'', hexdigit (of_char c div 16), hexdigit (of_char c)]
      else [c])"

definition repr :: "string \<Rightarrow> string" where
  "repr s = (let q = repr_quote s in [q] @ concat (map (repr_char q) s) @ [q])"

text \<open>\<open>str(n)\<close> for an integer: the decimal digits, with a minus sign when negative.\<close>

function str_nat :: "nat \<Rightarrow> string" where
  "str_nat n =
     (if n < 10 then [char_of (48 + n)]
      else str_nat (n div 10) @ [char_of (48 + n mod 10)])"
  by pat_completeness auto
termination
  by (relation "measure id") auto

definition str_int :: "int \<Rightarrow> string" where
  "str_int i = (if i < 0 then CHR ''-'' # str_nat (nat (- i)) else str_nat (nat i))"

section \<open>Exceptions\<close>

text \<open>
  \<open>InvalidRecipientError\<close> and \<open>UnsupportedMessageError\<close> are the two classes the
  program declares, each built with one message. \<open>KeyError\<close> is what \<open>meta['type']\<close>
  raises for a missing key. \<open>OtherException\<close> stands for an instance of any other
  subclass of \<open>Exception\<close>, with the text \<open>str\<close> gives for it, and \<open>RaisingStr\<close> for
  an instance of a subclass of \<open>Exception\<close> whose \<open>__str__\<close> raises the given
  exception. \<open>KeyboardInterrupt\<close> and \<open>SystemExit\<close> derive from \<open>BaseException\<close>
  and not from \<open>Exception\<close>.
\<close>

datatype exn =
    InvalidRecipientError string
  | UnsupportedMessageError string
  | KeyError string
  | OtherException string
  | RaisingStr exn
  | KeyboardInterrupt
  | SystemExit

text \<open>\<open>isinstance(e, Exception)\<close>, the test of the clause \<open>except Exception\<close>.\<close>

fun is_Exception :: "exn \<Rightarrow> bool" where
  "is_Exception KeyboardInterrupt = False"
| "is_Exception SystemExit = False"
| "is_Exception _ = True"

text \<open>
  \<open>str(e)\<close>, which \<open>{e}\<close> in an f-string evaluates: the text, or the exception that
  \<open>__str__\<close> raises.
\<close>

fun str_exn :: "exn \<Rightarrow> exn + string" where
  "str_exn (InvalidRecipientError a) = Inr a"
| "str_exn (UnsupportedMessageError a) = Inr a"
| "str_exn (KeyError k) = Inr (repr k)"
| "str_exn (OtherException a) = Inr a"
| "str_exn (RaisingStr e) = Inl e"
| "str_exn KeyboardInterrupt = Inr []"
| "str_exn SystemExit = Inr []"

section \<open>Messages\<close>

text \<open>
  A message object is its class together with its attributes. \<open>MediaMessage\<close> is
  instantiated directly by the program for a video, so it is a variant of its own
  beside its two subclasses. A \<open>datetime\<close> is kept as a number (a time stamp).
\<close>

type_synonym datetime = int

datatype message =
    TextMessage (msg_text: string) (send_date: datetime)
  | MediaMessage (msg_text: string) (send_date: datetime)
      (file_path: string) (format: string) (duration_seconds: "int option")
  | PhotoMessage (msg_text: string) (send_date: datetime)
      (file_path: string) (format: string) (duration_seconds: "int option")
  | FileMessage (msg_text: string) (send_date: datetime)
      (file_path: string) (format: string) (duration_seconds: "int option")

text \<open>
  The constructors. \<open>now\<close> is the value of \<open>datetime.now()\<close> at the call;
  \<open>Message.__post_init__\<close> stores it when no date was passed. \<open>MediaMessage.__init__\<close>
  passes only the text to \<open>Message.__init__\<close>, so a media message always gets \<open>now\<close>.
\<close>

definition Message_post_init :: "datetime \<Rightarrow> datetime option \<Rightarrow> datetime" where
  "Message_post_init now d = (case d of None \<Rightarrow> now | Some t \<Rightarrow> t)"

definition TextMessage_init :: "datetime \<Rightarrow> string \<Rightarrow> datetime option \<Rightarrow> message" where
  "TextMessage_init now t d = TextMessage t (Message_post_init now d)"

definition MediaMessage_init ::
  "datetime \<Rightarrow> string \<Rightarrow> string \<Rightarrow> string \<Rightarrow> int option \<Rightarrow> message" where
  "MediaMessage_init now t fp fmt dur = MediaMessage t (Message_post_init now None) fp fmt dur"

definition PhotoMessage_init :: "datetime \<Rightarrow> string \<Rightarrow> string \<Rightarrow> string \<Rightarrow> message" where
  "PhotoMessage_init now t fp fmt = PhotoMessage t (Message_post_init now None) fp fmt None"

definition FileMessage_init :: "datetime \<Rightarrow> string \<Rightarrow> string \<Rightarrow> string \<Rightarrow> message" where
  "FileMessage_init now t fp fmt = FileMessage t (Message_post_init now None) fp fmt None"

text \<open>The values of a metadata dictionary are strings and, for the duration, an integer.\<close>

datatype pyval = PyStr string | PyInt int

type_synonym meta = "string \<rightharpoonup> pyval"

text \<open>\<open>MediaMessage.metadata\<close>, which the two subclasses call through \<open>super()\<close>.\<close>

definition MediaMessage_metadata :: "message \<Rightarrow> meta" where
  "MediaMessage_metadata m =
     (let meta = [''type'' \<mapsto> PyStr ''media'', ''text'' \<mapsto> PyStr (msg_text m),
                  ''file_path'' \<mapsto> PyStr (file_path m), ''format'' \<mapsto> PyStr (format m)]
      in case duration_seconds m of
           None \<Rightarrow> meta
         | Some d \<Rightarrow> meta(''duration_seconds'' \<mapsto> PyInt d))"

text \<open>
  \<open>metadata\<close>, one equation for each class that defines the method. The subclasses
  overwrite the type and pop the duration.
\<close>

fun metadata :: "message \<Rightarrow> meta" where
  "metadata (TextMessage t d) = [''type'' \<mapsto> PyStr ''text'', ''text'' \<mapsto> PyStr t]"
| "metadata (MediaMessage t d fp fmt dur) = MediaMessage_metadata (MediaMessage t d fp fmt dur)"
| "metadata (PhotoMessage t d fp fmt dur) =
     ((MediaMessage_metadata (PhotoMessage t d fp fmt dur))
        (''type'' \<mapsto> PyStr ''photo'')) (''duration_seconds'' := None)"
| "metadata (FileMessage t d fp fmt dur) =
     ((MediaMessage_metadata (FileMessage t d fp fmt dur))
        (''type'' \<mapsto> PyStr ''file'')) (''duration_seconds'' := None)"

section \<open>Recipient validation\<close>

text \<open>
  A validator returns nothing or raises \<open>InvalidRecipientError\<close>: the result is
  \<open>Inr ()\<close> or \<open>Inl\<close> of the exception. The message is the prefix followed by the
  \<open>repr\<close> of the argument \<open>recipient\<close>, not of the stripped \<open>r\<close>.
\<close>

definition validate_phone :: "string \<Rightarrow> exn + unit" where
  "validate_phone recipient =
     (let r = strip recipient;
          r = (if startswith r ''+'' then drop 1 r else r)
      in if \<not> isdigit r \<or> \<not> (8 \<le> length r \<and> length r \<le> 15)
         then Inl (InvalidRecipientError
                (''Telefone inv'' @ [CHR 0xE1] @ ''lido: '' @ repr recipient))
         else Inr ())"

definition validate_username :: "string \<Rightarrow> exn + unit" where
  "validate_username recipient =
     (let r = strip recipient
      in if r = [] \<or> length r > 50
         then Inl (InvalidRecipientError
                (''Usu'' @ [CHR 0xE1] @ ''rio inv'' @ [CHR 0xE1] @ ''lido: '' @ repr recipient))
         else Inr ())"

section \<open>Channels\<close>

text \<open>
  \<open>{v}\<close> in an f-string, for a value read with \<open>meta.get\<close>: \<open>str\<close> of the value, and
  \<open>None\<close> for a missing key.
\<close>

fun fmt_value :: "pyval option \<Rightarrow> string" where
  "fmt_value None = ''None''"
| "fmt_value (Some (PyStr s)) = s"
| "fmt_value (Some (PyInt i)) = str_int i"

text \<open>
  The lines each \<open>send\<close> prints once the recipient is accepted. The four methods
  repeat the same three \<open>print\<close> calls and differ in the channel name only. A line is
  a string without its newline. \<open>meta['type']\<close> raises \<open>KeyError\<close> for a missing key,
  and it is evaluated before the first line is printed.
\<close>

definition report :: "string \<Rightarrow> string \<Rightarrow> meta \<Rightarrow> exn + string list" where
  "report name recipient meta =
     (case meta ''type'' of
        None \<Rightarrow> Inl (KeyError ''type'')
      | Some ty \<Rightarrow>
          Inr ([''['' @ name @ ''] Enviando para '' @ recipient @ '' -> tipo: ''
                  @ fmt_value (Some ty) @ '', texto: '' @ fmt_value (meta ''text'')]
               @ (if ty \<noteq> PyStr ''text''
                  then [''  arquivo: '' @ fmt_value (meta ''file_path'')
                          @ '' ('' @ fmt_value (meta ''format'') @ '')'']
                  else [])
               @ [''  -> Enviado com sucesso via '' @ name @ ''.'']))"

text \<open>
  A channel object has no attributes; it is modelled by its \<open>send\<close> method, which
  raises (\<open>Inl\<close>) or returns after printing the report (\<open>Inr\<close> of the lines). Every
  method validates before it prints, so nothing is printed when it raises.
\<close>

type_synonym channel = "message \<Rightarrow> string \<Rightarrow> exn + string list"

definition WhatsAppChannel_send :: channel where
  "WhatsAppChannel_send message recipient =
     (case validate_phone recipient of
        Inl e \<Rightarrow> Inl e
      | Inr _ \<Rightarrow> report ''WhatsApp'' recipient (metadata message))"

text \<open>
  The condition of the \<open>if\<close> in \<open>TelegramChannel.send\<close>, on the stripped recipient:
  true when the recipient is treated as a user name, false when it is treated as a phone
  number. Both validators receive the stripped \<open>r\<close>; the report shows \<open>recipient\<close>.
\<close>

definition treat_as_username :: "string \<Rightarrow> bool" where
  "treat_as_username r =
     (startswith r ''@''
      \<or> (\<not> startswith r ''+'' \<and> \<not> isdigit (replace_with_empty r CHR ''+'')))"

definition TelegramChannel_send :: channel where
  "TelegramChannel_send message recipient =
     (let r = strip recipient
      in case (if treat_as_username r then validate_username r else validate_phone r) of
           Inl e \<Rightarrow> Inl e
         | Inr _ \<Rightarrow> report ''Telegram'' recipient (metadata message))"

definition FacebookChannel_send :: channel where
  "FacebookChannel_send message recipient =
     (case validate_username recipient of
        Inl e \<Rightarrow> Inl e
      | Inr _ \<Rightarrow> report ''Facebook'' recipient (metadata message))"

definition InstagramChannel_send :: channel where
  "InstagramChannel_send message recipient =
     (case validate_username recipient of
        Inl e \<Rightarrow> Inl e
      | Inr _ \<Rightarrow> report ''Instagram'' recipient (metadata message))"

text \<open>The channels \<open>main\<close> creates, each with the name \<open>main\<close> shows for it.\<close>

definition channels :: "(channel \<times> string) list" where
  "channels =
     [(WhatsAppChannel_send, ''WhatsApp''), (TelegramChannel_send, ''Telegram''),
      (FacebookChannel_send, ''Facebook''), (InstagramChannel_send, ''Instagram'')]"

section \<open>Dispatch\<close>

text \<open>
  \<open>send_message_to_channel\<close> returns nothing and prints, or lets an exception
  through. Its result is \<open>Inr\<close> of the outcome, the branch of the \<open>try\<close> statement
  that ran to its end (the report of a \<open>send\<close> that returned, or the handler that
  caught the exception, with \<open>str\<close> of the exception), or \<open>Inl\<close> of the exception
  that reaches the caller: one that no clause catches, or one raised in a handler
  while its message is formatted. The clauses are tried in the order of the source.
  \<open>printed\<close> gives the lines on the standard output for each outcome.
\<close>

datatype failure_kind = InvalidRecipient | UnsupportedMessage | Unexpected

datatype outcome = Sent "string list" | Failed failure_kind string

text \<open>The body of an \<open>except\<close> clause: format \<open>{e}\<close>, then print.\<close>

definition handler :: "failure_kind \<Rightarrow> exn \<Rightarrow> exn + outcome" where
  "handler kind e = (case str_exn e of Inl e' \<Rightarrow> Inl e' | Inr d \<Rightarrow> Inr (Failed kind d))"

definition send_message_to_channel :: "channel \<Rightarrow> message \<Rightarrow> string \<Rightarrow> exn + outcome" where
  "send_message_to_channel channel message recipient =
     (case channel message recipient of
        Inr lines \<Rightarrow> Inr (Sent lines)
      | Inl e \<Rightarrow>
          (case e of
             InvalidRecipientError _ \<Rightarrow> handler InvalidRecipient e
           | UnsupportedMessageError _ \<Rightarrow> handler UnsupportedMessage e
           | _ \<Rightarrow> if is_Exception e then handler Unexpected e else Inl e))"

fun printed :: "outcome \<Rightarrow> string list" where
  "printed (Sent lines) = lines"
| "printed (Failed InvalidRecipient d) =
     [''[Erro] destinat'' @ [CHR 0xE1] @ ''rio inv'' @ [CHR 0xE1] @ ''lido: '' @ d]"
| "printed (Failed UnsupportedMessage d) =
     [''[Erro] mensagem n'' @ [CHR 0xE3] @ ''o suportada neste canal: '' @ d]"
| "printed (Failed Unexpected d) = [''[Erro inesperado] '' @ d]"

section \<open>The specification's notions\<close>

text \<open>
  Trimming, said without the algorithm: \<open>core\<close> is what is left of \<open>s\<close> after
  removing whitespace from both ends, that is \<open>s\<close> is \<open>core\<close> between two runs of
  whitespace and \<open>core\<close> neither starts nor ends with whitespace.
\<close>

definition trimmed_of :: "string \<Rightarrow> string \<Rightarrow> bool" where
  "trimmed_of s core =
     (\<exists>pre post. s = pre @ core @ post
        \<and> list_all isspace_char pre \<and> list_all isspace_char post
        \<and> (core = [] \<or> (\<not> isspace_char (hd core) \<and> \<not> isspace_char (last core))))"

text \<open>
  The pattern \<open>^\\+?\\d{8,15}$\<close> of the specification, on a string without a final
  newline: an optional plus sign, then 8 to 15 decimal digits.
\<close>

definition spec_phone_pattern :: "string \<Rightarrow> bool" where
  "spec_phone_pattern s =
     (let d = (case s of [] \<Rightarrow> [] | c # cs \<Rightarrow> if c = CHR ''+'' then cs else s)
      in list_all isdecimal_char d \<and> 8 \<le> length d \<and> length d \<le> 15)"

text \<open>
  Telegram's classification in the specification's words: a user name when the
  trimmed recipient starts with an at sign, or is not entirely digits once every plus
  sign is removed; and the \<open>send\<close> that classification gives. The digits of the
  specification are the decimal digits.
\<close>

definition entirely_digits :: "string \<Rightarrow> bool" where
  "entirely_digits s = (s \<noteq> [] \<and> list_all isdecimal_char s)"

definition spec_treat_as_username :: "string \<Rightarrow> bool" where
  "spec_treat_as_username r =
     (startswith r ''@'' \<or> \<not> entirely_digits (replace_with_empty r CHR ''+''))"


text \<open>Two messages of the same class that agree on every attribute but the date.\<close>

fun same_except_send_date :: "message \<Rightarrow> message \<Rightarrow> bool" where
  "same_except_send_date (TextMessage t d) (TextMessage t' d') = (t = t')"
| "same_except_send_date (MediaMessage t d fp fmt dur) (MediaMessage t' d' fp' fmt' dur') =
     (t = t' \<and> fp = fp' \<and> fmt = fmt' \<and> dur = dur')"
| "same_except_send_date (PhotoMessage t d fp fmt dur) (PhotoMessage t' d' fp' fmt' dur') =
     (t = t' \<and> fp = fp' \<and> fmt = fmt' \<and> dur = dur')"
| "same_except_send_date (FileMessage t d fp fmt dur) (FileMessage t' d' fp' fmt' dur') =
     (t = t' \<and> fp = fp' \<and> fmt = fmt' \<and> dur = dur')"
| "same_except_send_date _ _ = False"

text \<open>
  What the specification asks of a delivery report: its first line holds the channel
  name, the recipient, the type of the metadata and the text, and for a type other
  than \<open>text\<close> its second line holds the file path and the format. \<open>lines\<close> is the
  printed report, which has this one layout on every channel.
\<close>

definition delivery_report :: "string \<Rightarrow> string \<Rightarrow> message \<Rightarrow> string list \<Rightarrow> bool" where
  "delivery_report name recipient message lines =
     (\<exists>ty. metadata message ''type'' = Some (PyStr ty)
        \<and> lines = [''['' @ name @ ''] Enviando para '' @ recipient @ '' -> tipo: '' @ ty
                      @ '', texto: '' @ msg_text message]
                   @ (if ty \<noteq> ''text''
                      then [''  arquivo: '' @ file_path message
                              @ '' ('' @ format message @ '')'']
                      else [])
                   @ [''  -> Enviado com sucesso via '' @ name @ ''.'']
        \<and> sublist name (hd lines) \<and> sublist recipient (hd lines)
        \<and> sublist ty (hd lines) \<and> sublist (msg_text message) (hd lines)
        \<and> (ty \<noteq> ''text'' \<longrightarrow>
             sublist (file_path message) (lines ! 1)
             \<and> sublist (format message) (lines ! 1)))"

section \<open>Stripping\<close>

text \<open>
  \<open>strip\<close> cuts a run of whitespace from each end and leaves a string with no
  whitespace at either end; it is the only such decomposition.
\<close>

lemma strip_decomp:
  "\<exists>pre post. s = pre @ strip s @ post \<and> list_all isspace_char pre \<and> list_all isspace_char post"
proof -
  let ?P = isspace_char
  let ?t = "dropWhile ?P s"
  have s: "s = takeWhile ?P s @ ?t" by simp
  have t: "?t = rev (dropWhile ?P (rev ?t)) @ rev (takeWhile ?P (rev ?t))"
    by (metis rev_append rev_rev_ident takeWhile_dropWhile_id)
  have 1: "list_all ?P (takeWhile ?P s)"
    by (simp add: list_all_iff) (meson set_takeWhileD)
  have 2: "list_all ?P (rev (takeWhile ?P (rev ?t)))"
    by (simp add: list_all_iff) (meson set_takeWhileD)
  have "s = takeWhile ?P s @ strip s @ rev (takeWhile ?P (rev ?t))"
    using s t by (simp add: strip_def lstrip_def rstrip_def)
  with 1 2 show ?thesis by blast
qed

lemma strip_ends:
  assumes "strip s \<noteq> []"
  shows "\<not> isspace_char (hd (strip s))" and "\<not> isspace_char (last (strip s))"
proof -
  let ?P = isspace_char
  let ?t = "dropWhile ?P s"
  let ?u = "dropWhile ?P (rev ?t)"
  have u: "?u \<noteq> []" using assms by (simp add: strip_def lstrip_def rstrip_def)
  then have "\<not> ?P (hd ?u)" by (rule hd_dropWhile)
  then show "\<not> ?P (last (strip s))"
    using u by (simp add: strip_def lstrip_def rstrip_def last_rev)
  have t: "?t \<noteq> []"
  proof
    assume "?t = []"
    with u show False by (metis dropWhile.simps(1) rev.simps(1))
  qed
  then have nt: "\<not> ?P (hd ?t)" by (rule hd_dropWhile)
  have "?t = rev ?u @ rev (takeWhile ?P (rev ?t))"
    by (metis rev_append rev_rev_ident takeWhile_dropWhile_id)
  then have "hd ?t = hd (rev ?u)" using u by (metis hd_append2 rev_is_Nil_conv)
  with nt show "\<not> ?P (hd (strip s))" by (simp add: strip_def lstrip_def rstrip_def)
qed

lemma strip_unique:
  assumes "s = pre @ core @ post" "list_all isspace_char pre" "list_all isspace_char post"
    and "core = [] \<or> (\<not> isspace_char (hd core) \<and> \<not> isspace_char (last core))"
  shows "strip s = core"
proof (cases "core = []")
  case True
  then have "list_all isspace_char s" using assms by simp
  then have "dropWhile isspace_char s = []"
    by (metis dropWhile_eq_Nil_conv list_all_iff)
  then show ?thesis using True
    by (simp only: strip_def lstrip_def rstrip_def rev.simps dropWhile.simps)
next
  case False
  then obtain c cs where c: "core = c # cs" by (cases core) auto
  from False assms(4) have h: "\<not> isspace_char (hd core)" and l: "\<not> isspace_char (last core)" by auto
  have "dropWhile isspace_char s = core @ post"
    using assms(1,2) h c by (simp add: list_all_iff dropWhile_append2)
  moreover have "dropWhile isspace_char (rev post @ rev core) = rev core"
  proof -
    have "rev core \<noteq> []" using False by simp
    moreover have "hd (rev core) = last core" using False by (simp add: hd_rev)
    ultimately obtain x xs where "rev core = x # xs" "\<not> isspace_char x"
      using l by (cases "rev core") auto
    moreover have "dropWhile isspace_char (rev post @ x # xs) = dropWhile isspace_char (x # xs)"
      using assms(3) by (intro dropWhile_append2) (simp add: list_all_iff)
    ultimately show ?thesis by simp
  qed
  ultimately show ?thesis by (simp add: strip_def lstrip_def rstrip_def)
qed

lemma trimmed_of_iff: "trimmed_of s core \<longleftrightarrow> core = strip s"
proof
  assume "trimmed_of s core"
  then show "core = strip s" unfolding trimmed_of_def using strip_unique by metis
next
  assume c: "core = strip s"
  obtain pre post where "s = pre @ strip s @ post" "list_all isspace_char pre" "list_all isspace_char post"
    using strip_decomp by blast
  moreover have "strip s = [] \<or> (\<not> isspace_char (hd (strip s)) \<and> \<not> isspace_char (last (strip s)))"
    using strip_ends by blast
  ultimately show "trimmed_of s core" unfolding trimmed_of_def c by blast
qed

lemma strip_strip: "strip (strip s) = strip s"
proof -
  have "strip s = [] @ strip s @ []" by simp
  moreover have "strip s = [] \<or> (\<not> isspace_char (hd (strip s)) \<and> \<not> isspace_char (last (strip s)))"
    using strip_ends by blast
  ultimately show ?thesis
    using strip_unique [of "strip s" "[]" "strip s" "[]"] by simp
qed

section \<open>Metadata and reports never fail\<close>

lemma metadata_type: "\<exists>ty. metadata m ''type'' = Some (PyStr ty)"
  by (cases m) (simp_all add: MediaMessage_metadata_def Let_def split: option.split)

lemma metadata_text: "metadata m ''text'' = Some (PyStr (msg_text m))"
  by (cases m) (simp_all add: MediaMessage_metadata_def Let_def split: option.split)

lemma report_metadata_returns: "\<exists>lines. report name r (metadata m) = Inr lines"
proof -
  obtain ty where "metadata m ''type'' = Some (PyStr ty)" using metadata_type by blast
  then show ?thesis by (simp add: report_def)
qed

section \<open>User names\<close>

lemma validate_username_eq:
  "validate_username recipient =
     (if strip recipient \<noteq> [] \<and> length (strip recipient) \<le> 50 then Inr ()
      else Inl (InvalidRecipientError
             (''Usu'' @ [CHR 0xE1] @ ''rio inv'' @ [CHR 0xE1] @ ''lido: '' @ repr recipient)))"
  by (simp add: validate_username_def Let_def not_le)

lemma validate_username_strip:
  "(validate_username (strip r) = Inr ()) = (validate_username r = Inr ())"
  by (simp add: validate_username_eq strip_strip)

lemma user_send_returns_iff:
  "(\<exists>lines. (case validate_username r of Inl e \<Rightarrow> Inl e
                | Inr _ \<Rightarrow> report name r' (metadata m)) = Inr lines)
     = (validate_username r = Inr ())"
  using report_metadata_returns [of name r' m]
  by (cases "validate_username r") auto

text \<open>
  Claim C4. The user-name validation accepts exactly the recipients that, once the
  whitespace at both ends is trimmed, are non-empty and at most 50 characters long;
  every other recipient gets \<open>InvalidRecipientError\<close>. Facebook and Instagram, and
  Telegram for a recipient it treats as a user name, deliver exactly when it accepts.
\<close>

theorem validate_username_accepts_iff:
  "validate_username recipient =
     (if \<exists>core. trimmed_of recipient core \<and> core \<noteq> [] \<and> length core \<le> 50 then Inr ()
      else Inl (InvalidRecipientError
             (''Usu'' @ [CHR 0xE1] @ ''rio inv'' @ [CHR 0xE1] @ ''lido: '' @ repr recipient)))
   \<and> ((\<exists>lines. FacebookChannel_send message recipient = Inr lines)
        = (validate_username recipient = Inr ()))
   \<and> ((\<exists>lines. InstagramChannel_send message recipient = Inr lines)
        = (validate_username recipient = Inr ()))
   \<and> (treat_as_username (strip recipient) \<longrightarrow>
        (\<exists>lines. TelegramChannel_send message recipient = Inr lines)
          = (validate_username recipient = Inr ()))"
proof -
  have "(\<exists>core. trimmed_of recipient core \<and> core \<noteq> [] \<and> length core \<le> 50)
          = (strip recipient \<noteq> [] \<and> length (strip recipient) \<le> 50)"
    by (simp add: trimmed_of_iff)
  then have 1: "validate_username recipient =
     (if \<exists>core. trimmed_of recipient core \<and> core \<noteq> [] \<and> length core \<le> 50 then Inr ()
      else Inl (InvalidRecipientError
             (''Usu'' @ [CHR 0xE1] @ ''rio inv'' @ [CHR 0xE1] @ ''lido: '' @ repr recipient)))"
    by (simp only: validate_username_eq)
  have 2: "(\<exists>lines. FacebookChannel_send message recipient = Inr lines)
        = (validate_username recipient = Inr ())"
    unfolding FacebookChannel_send_def by (rule user_send_returns_iff)
  have 3: "(\<exists>lines. InstagramChannel_send message recipient = Inr lines)
        = (validate_username recipient = Inr ())"
    unfolding InstagramChannel_send_def by (rule user_send_returns_iff)
  have 4: "treat_as_username (strip recipient) \<longrightarrow>
        (\<exists>lines. TelegramChannel_send message recipient = Inr lines)
          = (validate_username recipient = Inr ())"
    using user_send_returns_iff [where r = "strip recipient" and name = "''Telegram''"
        and r' = recipient and m = message]
    by (simp add: TelegramChannel_send_def Let_def validate_username_strip)
  from 1 2 3 4 show ?thesis by blast
qed

lemma strip_alice: "strip ''  alice '' = ''alice''"
  by code_simp

theorem validate_username_accepts_iff_witness:
  "validate_username ''  alice '' = Inr ()
   \<and> (\<exists>lines. FacebookChannel_send (TextMessage ''hi'' 0) ''  alice '' = Inr lines)
   \<and> validate_username (replicate 51 CHR ''u'')
       = Inl (InvalidRecipientError
           (''Usu'' @ [CHR 0xE1] @ ''rio inv'' @ [CHR 0xE1] @ ''lido: ''
              @ repr (replicate 51 CHR ''u'')))"
proof -
  have a: "\<exists>core. trimmed_of ''  alice '' core \<and> core \<noteq> [] \<and> length core \<le> 50"
    by (simp add: trimmed_of_iff strip_alice)
  have u: "strip (replicate 51 CHR ''u'') = replicate 51 CHR ''u''"
    by code_simp
  have b: "\<not> (\<exists>core. trimmed_of (replicate 51 CHR ''u'') core \<and> core \<noteq> [] \<and> length core \<le> 50)"
    by (simp add: trimmed_of_iff u)
  from a have 1: "validate_username ''  alice '' = Inr ()"
    using validate_username_accepts_iff [where recipient = "''  alice ''"] by simp
  with validate_username_accepts_iff [where recipient = "''  alice ''" and message = "TextMessage ''hi'' 0"]
  have 2: "\<exists>lines. FacebookChannel_send (TextMessage ''hi'' 0) ''  alice '' = Inr lines"
    by blast
  from b have 3: "validate_username (replicate 51 CHR ''u'')
       = Inl (InvalidRecipientError
           (''Usu'' @ [CHR 0xE1] @ ''rio inv'' @ [CHR 0xE1] @ ''lido: ''
              @ repr (replicate 51 CHR ''u'')))"
    using validate_username_accepts_iff [where recipient = "replicate 51 CHR ''u''"] by simp
  from 1 2 3 show ?thesis by blast
qed

section \<open>Phone numbers\<close>

lemma validate_phone_eq:
  "validate_phone recipient =
     (if isdigit (if startswith (strip recipient) ''+'' then drop 1 (strip recipient)
                  else strip recipient)
         \<and> 8 \<le> length (if startswith (strip recipient) ''+'' then drop 1 (strip recipient)
                  else strip recipient)
         \<and> length (if startswith (strip recipient) ''+'' then drop 1 (strip recipient)
                  else strip recipient) \<le> 15
      then Inr ()
      else Inl (InvalidRecipientError
             (''Telefone inv'' @ [CHR 0xE1] @ ''lido: '' @ repr recipient)))"
  by (simp add: validate_phone_def Let_def)

lemma startswith_plus: "startswith s ''+'' = (case s of [] \<Rightarrow> False | c # cs \<Rightarrow> c = CHR ''+'')"
  by (cases s) (auto simp: startswith_def)

lemma isdecimal_isdigit: "isdecimal_char c \<Longrightarrow> isdigit_char c"
  by (simp add: isdecimal_char_def isdigit_char_def Let_def)

lemma spec_phone_pattern_accepted:
  assumes "spec_phone_pattern (strip recipient)"
  shows "validate_phone recipient = Inr ()"
proof (cases "strip recipient")
  case Nil
  with assms show ?thesis by (simp add: spec_phone_pattern_def)
next
  case (Cons c cs)
  with assms show ?thesis
    by (auto simp: spec_phone_pattern_def validate_phone_eq startswith_plus isdigit_def
        list_all_iff Let_def isdecimal_isdigit split: if_splits)
qed

lemma of_char_eq_numeral:
  "(of_char c = (178::nat)) = (c = CHR 0xB2)"
  "(of_char c = (179::nat)) = (c = CHR 0xB3)"
  "(of_char c = (185::nat)) = (c = CHR 0xB9)"
proof -
  have "of_char (CHR 0xB2) = (178::nat)" "of_char (CHR 0xB3) = (179::nat)"
    "of_char (CHR 0xB9) = (185::nat)" by simp_all
  then show "(of_char c = (178::nat)) = (c = CHR 0xB2)"
    "(of_char c = (179::nat)) = (c = CHR 0xB3)"
    "(of_char c = (185::nat)) = (c = CHR 0xB9)"
    by (metis of_char_eq_iff)+
qed

lemma isdigit_char_iff:
  "isdigit_char c = (isdecimal_char c \<or> c \<in> {CHR 0xB2, CHR 0xB3, CHR 0xB9})"
  by (simp only: isdigit_char_def isdecimal_char_def Let_def of_char_eq_numeral insert_iff
      empty_iff) blast

lemma validate_phone_without_superscripts:
  assumes "set recipient \<inter> {CHR 0xB2, CHR 0xB3, CHR 0xB9} = {}"
  shows "(validate_phone recipient = Inr ()) = spec_phone_pattern (strip recipient)"
proof
  assume "spec_phone_pattern (strip recipient)"
  then show "validate_phone recipient = Inr ()" by (rule spec_phone_pattern_accepted)
next
  assume v: "validate_phone recipient = Inr ()"
  obtain pre post where "recipient = pre @ strip recipient @ post"
    using strip_decomp by blast
  then have "set (strip recipient) \<subseteq> set recipient"
    by (metis Un_upper1 Un_upper2 set_append subset_trans)
  with assms have n: "set (strip recipient) \<inter> {CHR 0xB2, CHR 0xB3, CHR 0xB9} = {}" by blast
  show "spec_phone_pattern (strip recipient)"
  proof (cases "strip recipient")
    case Nil
    with v show ?thesis by (simp add: validate_phone_eq startswith_plus isdigit_def)
  next
    case (Cons c cs)
    with v n show ?thesis
      by (auto simp: spec_phone_pattern_def validate_phone_eq startswith_plus isdigit_def
          list_all_iff Let_def isdigit_char_iff split: if_splits)
  qed
qed

text \<open>
  Claim C3. The phone validation is claimed to accept exactly the recipients that,
  trimmed, are an optional plus sign and 8 to 15 decimal digits. Every such recipient
  is accepted (\<open>spec_phone_pattern_accepted\<close>), and for a recipient without the
  characters U+00B2, U+00B3 and U+00B9 the two agree
  (\<open>validate_phone_without_superscripts\<close>). But \<open>str.isdigit\<close> also holds of these
  superscript digits: a recipient of eight U+00B2 is accepted, and WhatsApp reports it
  sent, although it has no decimal digit at all.
\<close>

theorem validate_phone_accepts_superscript_digits:
  "validate_phone [CHR 0xB2, CHR 0xB2, CHR 0xB2, CHR 0xB2, CHR 0xB2, CHR 0xB2, CHR 0xB2, CHR 0xB2]
     = Inr ()
   \<and> \<not> spec_phone_pattern
         (strip [CHR 0xB2, CHR 0xB2, CHR 0xB2, CHR 0xB2, CHR 0xB2, CHR 0xB2, CHR 0xB2, CHR 0xB2])
   \<and> send_message_to_channel WhatsAppChannel_send (TextMessage ''hi'' 0)
        [CHR 0xB2, CHR 0xB2, CHR 0xB2, CHR 0xB2, CHR 0xB2, CHR 0xB2, CHR 0xB2, CHR 0xB2]
       = Inr (Sent [''[WhatsApp] Enviando para ''
                 @ [CHR 0xB2, CHR 0xB2, CHR 0xB2, CHR 0xB2, CHR 0xB2, CHR 0xB2, CHR 0xB2, CHR 0xB2]
                 @ '' -> tipo: text, texto: hi'',
               ''  -> Enviado com sucesso via WhatsApp.''])"
  by code_simp

section \<open>What a failed validation reports\<close>

text \<open>
  WhatsApp, Facebook and Instagram pass \<open>recipient\<close> to the validator, so the message
  holds the \<open>repr\<close> of the recipient as given. Telegram passes the stripped \<open>r\<close>.
\<close>

lemma phone_send_error:
  "WhatsAppChannel_send message recipient = Inl e \<Longrightarrow>
     e = InvalidRecipientError (''Telefone inv'' @ [CHR 0xE1] @ ''lido: '' @ repr recipient)"
  using report_metadata_returns [of "''WhatsApp''" recipient message]
  by (auto simp: WhatsAppChannel_send_def validate_phone_eq split: if_splits)

lemma user_send_error:
  "FacebookChannel_send message recipient = Inl e \<Longrightarrow>
     e = InvalidRecipientError
           (''Usu'' @ [CHR 0xE1] @ ''rio inv'' @ [CHR 0xE1] @ ''lido: '' @ repr recipient)"
  "InstagramChannel_send message recipient = Inl e \<Longrightarrow>
     e = InvalidRecipientError
           (''Usu'' @ [CHR 0xE1] @ ''rio inv'' @ [CHR 0xE1] @ ''lido: '' @ repr recipient)"
  using report_metadata_returns [of "''Facebook''" recipient message]
    report_metadata_returns [of "''Instagram''" recipient message]
  by (auto simp: FacebookChannel_send_def InstagramChannel_send_def validate_username_eq
      split: if_splits)

lemma telegram_send_error:
  "TelegramChannel_send message recipient = Inl e \<Longrightarrow>
     e = (if treat_as_username (strip recipient)
          then InvalidRecipientError
                 (''Usu'' @ [CHR 0xE1] @ ''rio inv'' @ [CHR 0xE1] @ ''lido: ''
                    @ repr (strip recipient))
          else InvalidRecipientError
                 (''Telefone inv'' @ [CHR 0xE1] @ ''lido: '' @ repr (strip recipient)))"
  using report_metadata_returns [of "''Telegram''" recipient message]
  by (auto simp: TelegramChannel_send_def Let_def validate_username_eq validate_phone_eq
      split: if_splits)

text \<open>
  Claim C5. A failed validation is claimed to report the recipient exactly as the
  caller gave it, on every channel. Telegram does not: for the recipient \<open>12345\<close>
  between two spaces its message holds \<open>'12345'\<close>, where WhatsApp's holds the
  recipient with its spaces; and for a recipient of two spaces Telegram's message
  holds the empty string, where Facebook's holds the two spaces.
\<close>

theorem telegram_error_carries_stripped_recipient:
  "TelegramChannel_send (TextMessage ''hi'' 0) '' 12345 ''
     = Inl (InvalidRecipientError (''Telefone inv'' @ [CHR 0xE1] @ ''lido: '' @ repr ''12345''))
   \<and> WhatsAppChannel_send (TextMessage ''hi'' 0) '' 12345 ''
     = Inl (InvalidRecipientError (''Telefone inv'' @ [CHR 0xE1] @ ''lido: '' @ repr '' 12345 ''))
   \<and> repr ''12345'' = [CHR 0x27] @ ''12345'' @ [CHR 0x27]
   \<and> repr '' 12345 '' = [CHR 0x27] @ '' 12345 '' @ [CHR 0x27]
   \<and> TelegramChannel_send (TextMessage ''hi'' 0) ''  ''
     = Inl (InvalidRecipientError
         (''Usu'' @ [CHR 0xE1] @ ''rio inv'' @ [CHR 0xE1] @ ''lido: '' @ repr []))
   \<and> FacebookChannel_send (TextMessage ''hi'' 0) ''  ''
     = Inl (InvalidRecipientError
         (''Usu'' @ [CHR 0xE1] @ ''rio inv'' @ [CHR 0xE1] @ ''lido: '' @ repr ''  ''))"
  by code_simp

section \<open>Telegram's choice of validator\<close>




text \<open>
  The classification of the program also differs from the specification's on a
  recipient made of superscript digits, which \<open>str.isdigit\<close> takes for digits: that is
  the slip of the phone validation again, and the statements below leave such
  recipients out.
\<close>

lemma telegram_superscript_digit:
  "spec_treat_as_username (strip [CHR 0xB2]) \<and> \<not> treat_as_username (strip [CHR 0xB2])"
  by code_simp




section \<open>Metadata\<close>

text \<open>
  Claim C6. The metadata of every constructed message has the keys \<open>type\<close> and
  \<open>text\<close>; \<open>text\<close> is the text the message was built with and \<open>type\<close> is the tag
  of its class: \<open>text\<close>, \<open>photo\<close>, \<open>file\<close>, and \<open>media\<close> for a \<open>MediaMessage\<close>. The
  three media classes add \<open>file_path\<close> and \<open>format\<close>, and only a \<open>MediaMessage\<close> built
  with a duration adds \<open>duration_seconds\<close>.
\<close>

theorem metadata_of_constructed_message:
  "metadata (TextMessage_init now t d) = [''type'' \<mapsto> PyStr ''text'', ''text'' \<mapsto> PyStr t]
   \<and> metadata (MediaMessage_init now t fp fmt None)
       = [''type'' \<mapsto> PyStr ''media'', ''text'' \<mapsto> PyStr t,
          ''file_path'' \<mapsto> PyStr fp, ''format'' \<mapsto> PyStr fmt]
   \<and> metadata (MediaMessage_init now t fp fmt (Some n))
       = [''type'' \<mapsto> PyStr ''media'', ''text'' \<mapsto> PyStr t,
          ''file_path'' \<mapsto> PyStr fp, ''format'' \<mapsto> PyStr fmt,
          ''duration_seconds'' \<mapsto> PyInt n]
   \<and> metadata (PhotoMessage_init now t fp fmt)
       = [''type'' \<mapsto> PyStr ''photo'', ''text'' \<mapsto> PyStr t,
          ''file_path'' \<mapsto> PyStr fp, ''format'' \<mapsto> PyStr fmt]
   \<and> metadata (FileMessage_init now t fp fmt)
       = [''type'' \<mapsto> PyStr ''file'', ''text'' \<mapsto> PyStr t,
          ''file_path'' \<mapsto> PyStr fp, ''format'' \<mapsto> PyStr fmt]
   \<and> dom (metadata (TextMessage_init now t d)) = {''type'', ''text''}
   \<and> dom (metadata (MediaMessage_init now t fp fmt None))
       = {''type'', ''text'', ''file_path'', ''format''}
   \<and> dom (metadata (MediaMessage_init now t fp fmt (Some n)))
       = {''type'', ''text'', ''file_path'', ''format'', ''duration_seconds''}
   \<and> dom (metadata (PhotoMessage_init now t fp fmt))
       = {''type'', ''text'', ''file_path'', ''format''}
   \<and> dom (metadata (FileMessage_init now t fp fmt))
       = {''type'', ''text'', ''file_path'', ''format''}
   \<and> metadata m ''text'' = Some (PyStr (msg_text m))
   \<and> metadata m ''type''
       = Some (PyStr (case m of TextMessage _ _ \<Rightarrow> ''text'' | MediaMessage _ _ _ _ _ \<Rightarrow> ''media''
                      | PhotoMessage _ _ _ _ _ \<Rightarrow> ''photo'' | FileMessage _ _ _ _ _ \<Rightarrow> ''file''))"
proof -
  have 1: "metadata (TextMessage_init now t d) = [''type'' \<mapsto> PyStr ''text'', ''text'' \<mapsto> PyStr t]"
    by (simp add: TextMessage_init_def)
  have 2: "metadata (MediaMessage_init now t fp fmt None)
       = [''type'' \<mapsto> PyStr ''media'', ''text'' \<mapsto> PyStr t,
          ''file_path'' \<mapsto> PyStr fp, ''format'' \<mapsto> PyStr fmt]"
    by (simp add: MediaMessage_init_def MediaMessage_metadata_def)
  have 3: "metadata (MediaMessage_init now t fp fmt (Some n))
       = [''type'' \<mapsto> PyStr ''media'', ''text'' \<mapsto> PyStr t,
          ''file_path'' \<mapsto> PyStr fp, ''format'' \<mapsto> PyStr fmt,
          ''duration_seconds'' \<mapsto> PyInt n]"
    by (simp add: MediaMessage_init_def MediaMessage_metadata_def)
  have 4: "metadata (PhotoMessage_init now t fp fmt)
       = [''type'' \<mapsto> PyStr ''photo'', ''text'' \<mapsto> PyStr t,
          ''file_path'' \<mapsto> PyStr fp, ''format'' \<mapsto> PyStr fmt]"
    by (auto simp: PhotoMessage_init_def MediaMessage_metadata_def fun_eq_iff)
  have 5: "metadata (FileMessage_init now t fp fmt)
       = [''type'' \<mapsto> PyStr ''file'', ''text'' \<mapsto> PyStr t,
          ''file_path'' \<mapsto> PyStr fp, ''format'' \<mapsto> PyStr fmt]"
    by (auto simp: FileMessage_init_def MediaMessage_metadata_def fun_eq_iff)
  have 6: "dom (metadata (TextMessage_init now t d)) = {''type'', ''text''}"
    unfolding 1 by auto
  have 7: "dom (metadata (MediaMessage_init now t fp fmt None))
       = {''type'', ''text'', ''file_path'', ''format''}"
    unfolding 2 by auto
  have 8: "dom (metadata (MediaMessage_init now t fp fmt (Some n)))
       = {''type'', ''text'', ''file_path'', ''format'', ''duration_seconds''}"
    unfolding 3 by auto
  have 9: "dom (metadata (PhotoMessage_init now t fp fmt))
       = {''type'', ''text'', ''file_path'', ''format''}"
    unfolding 4 by auto
  have 10: "dom (metadata (FileMessage_init now t fp fmt))
       = {''type'', ''text'', ''file_path'', ''format''}"
    unfolding 5 by auto
  have 11: "metadata m ''text'' = Some (PyStr (msg_text m))" by (rule metadata_text)
  have 12: "metadata m ''type''
       = Some (PyStr (case m of TextMessage _ _ \<Rightarrow> ''text'' | MediaMessage _ _ _ _ _ \<Rightarrow> ''media''
                      | PhotoMessage _ _ _ _ _ \<Rightarrow> ''photo'' | FileMessage _ _ _ _ _ \<Rightarrow> ''file''))"
    by (cases m) (simp_all add: MediaMessage_metadata_def Let_def split: option.split)
  from 1 2 3 4 5 6 7 8 9 10 11 12 show ?thesis by (intro conjI)
qed

text \<open>
  Claim C7. The metadata of a \<open>PhotoMessage\<close> or a \<open>FileMessage\<close> never has the key
  \<open>duration_seconds\<close>, whatever its attributes hold, and the two constructors set the
  duration to \<open>None\<close>.
\<close>

theorem photo_file_metadata_without_duration:
  "''duration_seconds'' \<notin> dom (metadata (PhotoMessage t d fp fmt dur))
   \<and> ''duration_seconds'' \<notin> dom (metadata (FileMessage t d fp fmt dur))
   \<and> ''duration_seconds'' \<notin> dom (metadata (PhotoMessage_init now t fp fmt))
   \<and> ''duration_seconds'' \<notin> dom (metadata (FileMessage_init now t fp fmt))
   \<and> duration_seconds (PhotoMessage_init now t fp fmt) = None
   \<and> duration_seconds (FileMessage_init now t fp fmt) = None"
  by (simp add: PhotoMessage_init_def FileMessage_init_def)

theorem metadata_of_constructed_message_witness:
  "metadata (PhotoMessage_init 0 ''hi'' ''/tmp/a.jpg'' ''jpg'') ''text'' = Some (PyStr ''hi'')
   \<and> metadata (MediaMessage_init 0 ''v'' ''/tmp/video.mp4'' ''mp4'' (Some 120))
       = [''type'' \<mapsto> PyStr ''media'', ''text'' \<mapsto> PyStr ''v'',
          ''file_path'' \<mapsto> PyStr ''/tmp/video.mp4'', ''format'' \<mapsto> PyStr ''mp4'',
          ''duration_seconds'' \<mapsto> PyInt 120]"
proof -
  note th = metadata_of_constructed_message
      [where now = 0 and t = "''v''" and d = None and fp = "''/tmp/video.mp4''"
         and fmt = "''mp4''" and n = 120
         and m = "PhotoMessage_init 0 ''hi'' ''/tmp/a.jpg'' ''jpg''"]
  have "metadata (PhotoMessage_init 0 ''hi'' ''/tmp/a.jpg'' ''jpg'') ''text''
          = Some (PyStr (msg_text (PhotoMessage_init 0 ''hi'' ''/tmp/a.jpg'' ''jpg'')))"
    using th by - (elim conjE, assumption)
  then have 1: "metadata (PhotoMessage_init 0 ''hi'' ''/tmp/a.jpg'' ''jpg'') ''text''
          = Some (PyStr ''hi'')"
    by (simp add: PhotoMessage_init_def)
  have 2: "metadata (MediaMessage_init 0 ''v'' ''/tmp/video.mp4'' ''mp4'' (Some 120))
       = [''type'' \<mapsto> PyStr ''media'', ''text'' \<mapsto> PyStr ''v'',
          ''file_path'' \<mapsto> PyStr ''/tmp/video.mp4'', ''format'' \<mapsto> PyStr ''mp4'',
          ''duration_seconds'' \<mapsto> PyInt 120]"
    using th by - (elim conjE, assumption)
  from 1 2 show ?thesis by (intro conjI)
qed

theorem photo_file_metadata_without_duration_witness:
  "''duration_seconds'' \<notin> dom (metadata (PhotoMessage ''hi'' 0 ''/tmp/a.pdf'' ''pdf'' (Some 5)))
   \<and> ''duration_seconds'' \<notin> dom (metadata (FileMessage_init 0 ''hi'' ''/tmp/a.pdf'' ''pdf''))"
proof -
  note th = photo_file_metadata_without_duration
      [where t = "''hi''" and d = 0 and fp = "''/tmp/a.pdf''" and fmt = "''pdf''"
         and dur = "Some 5" and now = 0]
  have 1: "''duration_seconds'' \<notin> dom (metadata (PhotoMessage ''hi'' 0 ''/tmp/a.pdf'' ''pdf'' (Some 5)))"
    using th by - (elim conjE, assumption)
  have 2: "''duration_seconds'' \<notin> dom (metadata (FileMessage_init 0 ''hi'' ''/tmp/a.pdf'' ''pdf''))"
    using th by - (elim conjE, assumption)
  from 1 2 show ?thesis by (intro conjI)
qed

section \<open>Delivery reports\<close>

lemma metadata_tag:
  "metadata m ''type''
     = Some (PyStr (case m of TextMessage _ _ \<Rightarrow> ''text'' | MediaMessage _ _ _ _ _ \<Rightarrow> ''media''
                    | PhotoMessage _ _ _ _ _ \<Rightarrow> ''photo'' | FileMessage _ _ _ _ _ \<Rightarrow> ''file''))"
  by (cases m) (simp_all add: MediaMessage_metadata_def Let_def split: option.split)

lemma metadata_media:
  "metadata (MediaMessage t d fp fmt dur) ''file_path'' = Some (PyStr fp)"
  "metadata (MediaMessage t d fp fmt dur) ''format'' = Some (PyStr fmt)"
  "metadata (PhotoMessage t d fp fmt dur) ''file_path'' = Some (PyStr fp)"
  "metadata (PhotoMessage t d fp fmt dur) ''format'' = Some (PyStr fmt)"
  "metadata (FileMessage t d fp fmt dur) ''file_path'' = Some (PyStr fp)"
  "metadata (FileMessage t d fp fmt dur) ''format'' = Some (PyStr fmt)"
  by (simp_all add: MediaMessage_metadata_def Let_def split: option.split)

lemma report_text:
  "report name r (metadata (TextMessage t d))
     = Inr [''['' @ name @ ''] Enviando para '' @ r @ '' -> tipo: '' @ ''text''
              @ '', texto: '' @ t,
            ''  -> Enviado com sucesso via '' @ name @ ''.'']"
  by (simp add: report_def)

lemma report_media:
  "report name r (metadata (MediaMessage t d fp fmt dur))
     = Inr [''['' @ name @ ''] Enviando para '' @ r @ '' -> tipo: '' @ ''media''
              @ '', texto: '' @ t,
            ''  arquivo: '' @ fp @ '' ('' @ fmt @ '')'',
            ''  -> Enviado com sucesso via '' @ name @ ''.'']"
  by (simp add: report_def MediaMessage_metadata_def Let_def split: option.split)

lemma report_photo:
  "report name r (metadata (PhotoMessage t d fp fmt dur))
     = Inr [''['' @ name @ ''] Enviando para '' @ r @ '' -> tipo: '' @ ''photo''
              @ '', texto: '' @ t,
            ''  arquivo: '' @ fp @ '' ('' @ fmt @ '')'',
            ''  -> Enviado com sucesso via '' @ name @ ''.'']"
  by (simp add: report_def MediaMessage_metadata_def Let_def split: option.split)

lemma report_file:
  "report name r (metadata (FileMessage t d fp fmt dur))
     = Inr [''['' @ name @ ''] Enviando para '' @ r @ '' -> tipo: '' @ ''file''
              @ '', texto: '' @ t,
            ''  arquivo: '' @ fp @ '' ('' @ fmt @ '')'',
            ''  -> Enviado com sucesso via '' @ name @ ''.'']"
  by (simp add: report_def MediaMessage_metadata_def Let_def split: option.split)

lemma report_metadata_eq:
  "\<exists>ty. metadata m ''type'' = Some (PyStr ty)
     \<and> report name r (metadata m)
         = Inr ([''['' @ name @ ''] Enviando para '' @ r @ '' -> tipo: '' @ ty
                   @ '', texto: '' @ msg_text m]
                @ (if ty \<noteq> ''text''
                   then [''  arquivo: '' @ file_path m @ '' ('' @ format m @ '')'']
                   else [])
                @ [''  -> Enviado com sucesso via '' @ name @ ''.''])"
proof (cases m)
  case (TextMessage t d)
  have "metadata m ''type'' = Some (PyStr ''text'')" by (simp only: TextMessage metadata_tag message.case)
  moreover have "report name r (metadata m)
         = Inr ([''['' @ name @ ''] Enviando para '' @ r @ '' -> tipo: '' @ ''text''
                   @ '', texto: '' @ msg_text m]
                @ (if ''text'' \<noteq> ''text''
                   then [''  arquivo: '' @ file_path m @ '' ('' @ format m @ '')'']
                   else [])
                @ [''  -> Enviado com sucesso via '' @ name @ ''.''])"
    by (simp only: TextMessage report_text message.sel) simp
  ultimately show ?thesis by blast
next
  case (MediaMessage t d fp fmt dur)
  have "metadata m ''type'' = Some (PyStr ''media'')" by (simp only: MediaMessage metadata_tag message.case)
  moreover have "report name r (metadata m)
         = Inr ([''['' @ name @ ''] Enviando para '' @ r @ '' -> tipo: '' @ ''media''
                   @ '', texto: '' @ msg_text m]
                @ (if ''media'' \<noteq> ''text''
                   then [''  arquivo: '' @ file_path m @ '' ('' @ format m @ '')'']
                   else [])
                @ [''  -> Enviado com sucesso via '' @ name @ ''.''])"
    by (simp only: MediaMessage report_media message.sel) simp
  ultimately show ?thesis by blast
next
  case (PhotoMessage t d fp fmt dur)
  have "metadata m ''type'' = Some (PyStr ''photo'')" by (simp only: PhotoMessage metadata_tag message.case)
  moreover have "report name r (metadata m)
         = Inr ([''['' @ name @ ''] Enviando para '' @ r @ '' -> tipo: '' @ ''photo''
                   @ '', texto: '' @ msg_text m]
                @ (if ''photo'' \<noteq> ''text''
                   then [''  arquivo: '' @ file_path m @ '' ('' @ format m @ '')'']
                   else [])
                @ [''  -> Enviado com sucesso via '' @ name @ ''.''])"
    by (simp only: PhotoMessage report_photo message.sel) simp
  ultimately show ?thesis by blast
next
  case (FileMessage t d fp fmt dur)
  have "metadata m ''type'' = Some (PyStr ''file'')" by (simp only: FileMessage metadata_tag message.case)
  moreover have "report name r (metadata m)
         = Inr ([''['' @ name @ ''] Enviando para '' @ r @ '' -> tipo: '' @ ''file''
                   @ '', texto: '' @ msg_text m]
                @ (if ''file'' \<noteq> ''text''
                   then [''  arquivo: '' @ file_path m @ '' ('' @ format m @ '')'']
                   else [])
                @ [''  -> Enviado com sucesso via '' @ name @ ''.''])"
    by (simp only: FileMessage report_file message.sel) simp
  ultimately show ?thesis by blast
qed

lemma channel_send_cases:
  assumes "(channel, name) \<in> set channels"
  shows "(\<exists>a. channel m r = Inl (InvalidRecipientError a))
         \<or> channel m r = report name r (metadata m)"
proof -
  have w: "(\<exists>a. WhatsAppChannel_send m r = Inl (InvalidRecipientError a))
         \<or> WhatsAppChannel_send m r = report ''WhatsApp'' r (metadata m)"
    by (simp add: WhatsAppChannel_send_def validate_phone_eq)
  have t: "(\<exists>a. TelegramChannel_send m r = Inl (InvalidRecipientError a))
         \<or> TelegramChannel_send m r = report ''Telegram'' r (metadata m)"
    by (simp add: TelegramChannel_send_def Let_def validate_phone_eq validate_username_eq)
  have f: "(\<exists>a. FacebookChannel_send m r = Inl (InvalidRecipientError a))
         \<or> FacebookChannel_send m r = report ''Facebook'' r (metadata m)"
    by (simp add: FacebookChannel_send_def validate_username_eq)
  have i: "(\<exists>a. InstagramChannel_send m r = Inl (InvalidRecipientError a))
         \<or> InstagramChannel_send m r = report ''Instagram'' r (metadata m)"
    by (simp add: InstagramChannel_send_def validate_username_eq)
  from assms have "(channel, name) = (WhatsAppChannel_send, ''WhatsApp'')
      \<or> (channel, name) = (TelegramChannel_send, ''Telegram'')
      \<or> (channel, name) = (FacebookChannel_send, ''Facebook'')
      \<or> (channel, name) = (InstagramChannel_send, ''Instagram'')"
    by (simp add: channels_def)
  with w t f i show ?thesis by blast
qed

lemma first_line_contains:
  "sublist name (''['' @ name @ ''] Enviando para '' @ r @ '' -> tipo: '' @ ty @ '', texto: '' @ t)"
  "sublist r (''['' @ name @ ''] Enviando para '' @ r @ '' -> tipo: '' @ ty @ '', texto: '' @ t)"
  "sublist ty (''['' @ name @ ''] Enviando para '' @ r @ '' -> tipo: '' @ ty @ '', texto: '' @ t)"
  "sublist t (''['' @ name @ ''] Enviando para '' @ r @ '' -> tipo: '' @ ty @ '', texto: '' @ t)"
proof -
  show "sublist name (''['' @ name @ ''] Enviando para '' @ r @ '' -> tipo: '' @ ty @ '', texto: '' @ t)"
    by (rule sublist_appendI)
  have "sublist r ((''['' @ name @ ''] Enviando para '') @ r @ ('' -> tipo: '' @ ty @ '', texto: '' @ t))"
    by (rule sublist_appendI)
  then show "sublist r (''['' @ name @ ''] Enviando para '' @ r @ '' -> tipo: '' @ ty @ '', texto: '' @ t)"
    by (simp only: append_assoc)
  have "sublist ty ((''['' @ name @ ''] Enviando para '' @ r @ '' -> tipo: '') @ ty @ ('', texto: '' @ t))"
    by (rule sublist_appendI)
  then show "sublist ty (''['' @ name @ ''] Enviando para '' @ r @ '' -> tipo: '' @ ty @ '', texto: '' @ t)"
    by (simp only: append_assoc)
  have "sublist t ((''['' @ name @ ''] Enviando para '' @ r @ '' -> tipo: '' @ ty @ '', texto: '') @ t)"
    by (rule sublist_append_leftI)
  then show "sublist t (''['' @ name @ ''] Enviando para '' @ r @ '' -> tipo: '' @ ty @ '', texto: '' @ t)"
    by (simp only: append_assoc)
qed

lemma second_line_contains:
  "sublist fp (''  arquivo: '' @ fp @ '' ('' @ fmt @ '')'')"
  "sublist fmt (''  arquivo: '' @ fp @ '' ('' @ fmt @ '')'')"
proof -
  show "sublist fp (''  arquivo: '' @ fp @ '' ('' @ fmt @ '')'')"
    by (rule sublist_appendI)
  have "sublist fmt ((''  arquivo: '' @ fp @ '' ('') @ fmt @ '')'')"
    by (rule sublist_appendI)
  then show "sublist fmt (''  arquivo: '' @ fp @ '' ('' @ fmt @ '')'')"
    by (simp only: append_assoc)
qed

lemma three_lines:
  "hd ([a] @ (if c then [b] else []) @ [d]) = a"
  "c \<Longrightarrow> ([a] @ (if c then [b] else []) @ [d]) ! 1 = b"
  by simp_all

lemma report_lines_contain:
  fixes lines :: "string list"
  assumes "lines = [''['' @ name @ ''] Enviando para '' @ r @ '' -> tipo: '' @ ty
                          @ '', texto: '' @ t]
                   @ (if ty \<noteq> ''text'' then [''  arquivo: '' @ fp @ '' ('' @ fmt @ '')''] else [])
                   @ [''  -> Enviado com sucesso via '' @ name @ ''.'']"
  shows "sublist name (hd lines) \<and> sublist r (hd lines)
            \<and> sublist ty (hd lines) \<and> sublist t (hd lines)
            \<and> (ty \<noteq> ''text'' \<longrightarrow> sublist fp (lines ! 1) \<and> sublist fmt (lines ! 1))"
proof -
  have hd: "hd lines = ''['' @ name @ ''] Enviando para '' @ r @ '' -> tipo: '' @ ty
                          @ '', texto: '' @ t"
    unfolding assms by (rule three_lines)
  have nth: "ty \<noteq> ''text'' \<Longrightarrow> lines ! 1 = ''  arquivo: '' @ fp @ '' ('' @ fmt @ '')''"
    unfolding assms by (rule three_lines)
  show ?thesis
  proof (intro conjI impI)
    show "sublist name (hd lines)" unfolding hd by (rule first_line_contains)
    show "sublist r (hd lines)" unfolding hd by (rule first_line_contains)
    show "sublist ty (hd lines)" unfolding hd by (rule first_line_contains)
    show "sublist t (hd lines)" unfolding hd by (rule first_line_contains)
    assume n: "ty \<noteq> ''text''"
    show "sublist fp (lines ! 1)" unfolding nth [OF n] by (rule second_line_contains)
    show "sublist fmt (lines ! 1)" unfolding nth [OF n] by (rule second_line_contains)
  qed
qed

text \<open>
  Claim C8. On each of the four channels \<open>send\<close> either raises
  \<open>InvalidRecipientError\<close> (the recipient failed the validation) or prints a report
  whose first line holds the channel name, the recipient as given, the type of the
  metadata and the text of the message; when the type is not \<open>text\<close> the second line
  holds the file path and the format.
\<close>

lemma report_is_delivery_report:
  "\<exists>lines. report name recipient (metadata message) = Inr lines
     \<and> delivery_report name recipient message lines"
proof -
  obtain ty where ty: "metadata message ''type'' = Some (PyStr ty)"
    and rep: "report name recipient (metadata message)
         = Inr ([''['' @ name @ ''] Enviando para '' @ recipient @ '' -> tipo: '' @ ty
                   @ '', texto: '' @ msg_text message]
                @ (if ty \<noteq> ''text''
                   then [''  arquivo: '' @ file_path message @ '' ('' @ format message @ '')'']
                   else [])
                @ [''  -> Enviado com sucesso via '' @ name @ ''.''])"
    using report_metadata_eq by blast
  define lines where "lines = [''['' @ name @ ''] Enviando para '' @ recipient @ '' -> tipo: '' @ ty
                   @ '', texto: '' @ msg_text message]
                @ (if ty \<noteq> ''text''
                   then [''  arquivo: '' @ file_path message @ '' ('' @ format message @ '')'']
                   else [])
                @ [''  -> Enviado com sucesso via '' @ name @ ''.'']"
  have good: "sublist name (hd lines) \<and> sublist recipient (hd lines)
            \<and> sublist ty (hd lines) \<and> sublist (msg_text message) (hd lines)
            \<and> (ty \<noteq> ''text'' \<longrightarrow>
                 sublist (file_path message) (lines ! 1)
                 \<and> sublist (format message) (lines ! 1))"
    using lines_def by (rule report_lines_contain)
  have "delivery_report name recipient message lines"
    unfolding delivery_report_def using ty lines_def good by (intro exI [of _ ty]) blast
  moreover have "report name recipient (metadata message) = Inr lines"
    using rep lines_def by simp
  ultimately show ?thesis by blast
qed

lemma validated_send:
  assumes "v = Inr ()"
  shows "\<exists>lines. (case v of Inl e \<Rightarrow> Inl e
                   | Inr u \<Rightarrow> report name recipient (metadata message)) = Inr lines
           \<and> delivery_report name recipient message lines"
  using report_is_delivery_report [of name recipient message] by (simp add: assms)

lemma rejected_send:
  assumes "v = Inl e"
  shows "(case v of Inl e \<Rightarrow> Inl e
          | Inr u \<Rightarrow> report name recipient (metadata message)) = Inl e"
  by (simp add: assms)

text \<open>
  Claim C8. On every channel, a recipient that passes the channel's validation gets a
  report: \<open>send\<close> returns, and the lines it printed hold the channel name, the
  recipient as given, the type of the metadata and the text of the message, and for a
  type other than \<open>text\<close> the file path and the format. A recipient that fails the
  validation gets the validator's exception and no report.
\<close>

theorem delivery_report_contents:
  "(validate_phone recipient = Inr () \<longrightarrow>
      (\<exists>lines. WhatsAppChannel_send message recipient = Inr lines
         \<and> delivery_report ''WhatsApp'' recipient message lines))
   \<and> ((if treat_as_username (strip recipient) then validate_username (strip recipient)
        else validate_phone (strip recipient)) = Inr () \<longrightarrow>
      (\<exists>lines. TelegramChannel_send message recipient = Inr lines
         \<and> delivery_report ''Telegram'' recipient message lines))
   \<and> (validate_username recipient = Inr () \<longrightarrow>
      (\<exists>lines. FacebookChannel_send message recipient = Inr lines
         \<and> delivery_report ''Facebook'' recipient message lines)
      \<and> (\<exists>lines. InstagramChannel_send message recipient = Inr lines
         \<and> delivery_report ''Instagram'' recipient message lines))
   \<and> (\<forall>e. validate_phone recipient = Inl e \<longrightarrow>
         WhatsAppChannel_send message recipient = Inl e)
   \<and> (\<forall>e. (if treat_as_username (strip recipient) then validate_username (strip recipient)
             else validate_phone (strip recipient)) = Inl e \<longrightarrow>
         TelegramChannel_send message recipient = Inl e)
   \<and> (\<forall>e. validate_username recipient = Inl e \<longrightarrow>
         FacebookChannel_send message recipient = Inl e
         \<and> InstagramChannel_send message recipient = Inl e)"
proof (intro conjI impI allI)
  assume "validate_phone recipient = Inr ()"
  then show "\<exists>lines. WhatsAppChannel_send message recipient = Inr lines
         \<and> delivery_report ''WhatsApp'' recipient message lines"
    unfolding WhatsAppChannel_send_def by (rule validated_send)
next
  assume "(if treat_as_username (strip recipient) then validate_username (strip recipient)
        else validate_phone (strip recipient)) = Inr ()"
  then show "\<exists>lines. TelegramChannel_send message recipient = Inr lines
         \<and> delivery_report ''Telegram'' recipient message lines"
    unfolding TelegramChannel_send_def Let_def by (rule validated_send)
next
  assume "validate_username recipient = Inr ()"
  then show "\<exists>lines. FacebookChannel_send message recipient = Inr lines
         \<and> delivery_report ''Facebook'' recipient message lines"
    unfolding FacebookChannel_send_def by (rule validated_send)
next
  assume "validate_username recipient = Inr ()"
  then show "\<exists>lines. InstagramChannel_send message recipient = Inr lines
         \<and> delivery_report ''Instagram'' recipient message lines"
    unfolding InstagramChannel_send_def by (rule validated_send)
next
  fix e assume "validate_phone recipient = Inl e"
  then show "WhatsAppChannel_send message recipient = Inl e"
    unfolding WhatsAppChannel_send_def by (rule rejected_send)
next
  fix e assume "(if treat_as_username (strip recipient) then validate_username (strip recipient)
             else validate_phone (strip recipient)) = Inl e"
  then show "TelegramChannel_send message recipient = Inl e"
    unfolding TelegramChannel_send_def Let_def by (rule rejected_send)
next
  fix e assume "validate_username recipient = Inl e"
  then show "FacebookChannel_send message recipient = Inl e"
    unfolding FacebookChannel_send_def by (rule rejected_send)
next
  fix e assume "validate_username recipient = Inl e"
  then show "InstagramChannel_send message recipient = Inl e"
    unfolding InstagramChannel_send_def by (rule rejected_send)
qed

theorem delivery_report_contents_witness:
  "(if treat_as_username (strip ''@usuario_valido'') then validate_username (strip ''@usuario_valido'')
    else validate_phone (strip ''@usuario_valido'')) = Inr ()
   \<and> TelegramChannel_send (MediaMessage_init 0 ''v'' ''/tmp/video.mp4'' ''mp4'' (Some 120))
       ''@usuario_valido''
     = Inr [''[Telegram] Enviando para @usuario_valido -> tipo: media, texto: v'',
            ''  arquivo: /tmp/video.mp4 (mp4)'',
            ''  -> Enviado com sucesso via Telegram.'']
   \<and> send_message_to_channel TelegramChannel_send
         (MediaMessage_init 0 ''v'' ''/tmp/video.mp4'' ''mp4'' (Some 120)) ''@usuario_valido''
     = Inr (Sent [''[Telegram] Enviando para @usuario_valido -> tipo: media, texto: v'',
            ''  arquivo: /tmp/video.mp4 (mp4)'',
            ''  -> Enviado com sucesso via Telegram.''])
   \<and> delivery_report ''Telegram'' ''@usuario_valido''
         (MediaMessage_init 0 ''v'' ''/tmp/video.mp4'' ''mp4'' (Some 120))
         [''[Telegram] Enviando para @usuario_valido -> tipo: media, texto: v'',
          ''  arquivo: /tmp/video.mp4 (mp4)'',
          ''  -> Enviado com sucesso via Telegram.'']
   \<and> sublist ''/tmp/video.mp4'' ''  arquivo: /tmp/video.mp4 (mp4)''
   \<and> sublist ''mp4'' ''  arquivo: /tmp/video.mp4 (mp4)''"
proof -
  let ?m = "MediaMessage_init 0 ''v'' ''/tmp/video.mp4'' ''mp4'' (Some 120)"
  let ?L = "[''[Telegram] Enviando para @usuario_valido -> tipo: media, texto: v'',
            ''  arquivo: /tmp/video.mp4 (mp4)'',
            ''  -> Enviado com sucesso via Telegram.'']"
  have v: "(if treat_as_username (strip ''@usuario_valido'')
            then validate_username (strip ''@usuario_valido'')
            else validate_phone (strip ''@usuario_valido'')) = Inr ()"
    by code_simp
  have s: "TelegramChannel_send ?m ''@usuario_valido'' = Inr ?L" by code_simp
  have d: "send_message_to_channel TelegramChannel_send ?m ''@usuario_valido'' = Inr (Sent ?L)"
    by (simp only: send_message_to_channel_def s sum.case)
  have ty: "metadata ?m ''type'' = Some (PyStr ''media'')"
    by (simp add: MediaMessage_init_def MediaMessage_metadata_def)
  have fp: "file_path ?m = ''/tmp/video.mp4''" "format ?m = ''mp4''"
    by (simp_all add: MediaMessage_init_def)
  from delivery_report_contents [where message = ?m and recipient = "''@usuario_valido''"] v
  have "\<exists>lines. TelegramChannel_send ?m ''@usuario_valido'' = Inr lines
         \<and> delivery_report ''Telegram'' ''@usuario_valido'' ?m lines"
    by blast
  then have r: "delivery_report ''Telegram'' ''@usuario_valido'' ?m ?L"
    unfolding s by blast
  then have "\<exists>ty. metadata ?m ''type'' = Some (PyStr ty)
            \<and> (ty \<noteq> ''text'' \<longrightarrow>
                 sublist (file_path ?m) (?L ! 1) \<and> sublist (format ?m) (?L ! 1))"
    unfolding delivery_report_def by blast
  then have "sublist (file_path ?m) (?L ! 1) \<and> sublist (format ?m) (?L ! 1)"
    unfolding ty by auto
  then have "sublist ''/tmp/video.mp4'' ''  arquivo: /tmp/video.mp4 (mp4)''
     \<and> sublist ''mp4'' ''  arquivo: /tmp/video.mp4 (mp4)''"
    unfolding fp by simp
  with v s d r show ?thesis by blast
qed

section \<open>Outcomes of dispatch\<close>

lemma channel_never_unsupported:
  assumes "(channel, name) \<in> set channels"
  shows "channel m r \<noteq> Inl (UnsupportedMessageError a)"
proof -
  obtain lines where "report name r (metadata m) = Inr lines"
    using report_metadata_returns by blast
  with channel_send_cases [OF assms, of m r] show ?thesis by auto
qed

lemma dispatch_returned:
  "channel m r = Inr lines \<Longrightarrow> send_message_to_channel channel m r = Inr (Sent lines)"
  by (simp add: send_message_to_channel_def)

lemma dispatch_invalid_recipient:
  "channel m r = Inl (InvalidRecipientError a) \<Longrightarrow>
     send_message_to_channel channel m r = Inr (Failed InvalidRecipient a)"
  by (simp add: send_message_to_channel_def handler_def)

lemma dispatch_unsupported_iff:
  "send_message_to_channel channel m r = Inr (Failed UnsupportedMessage d)
     \<longleftrightarrow> channel m r = Inl (UnsupportedMessageError d)"
  by (auto simp: send_message_to_channel_def handler_def split: sum.splits exn.splits if_splits)

lemma shipped_channel_outcome:
  assumes "(channel, name) \<in> set channels"
  shows "(\<exists>lines. channel m r = Inr lines
           \<and> send_message_to_channel channel m r = Inr (Sent lines))
        \<or> (\<exists>a. channel m r = Inl (InvalidRecipientError a)
           \<and> send_message_to_channel channel m r = Inr (Failed InvalidRecipient a))"
proof -
  obtain lines where "report name r (metadata m) = Inr lines"
    using report_metadata_returns by blast
  with channel_send_cases [OF assms, of m r]
  have "(\<exists>a. channel m r = Inl (InvalidRecipientError a)) \<or> (\<exists>lines. channel m r = Inr lines)"
    by auto
  then show ?thesis using dispatch_returned dispatch_invalid_recipient by blast
qed

text \<open>
  Claim C9. None of the four channels raises \<open>UnsupportedMessageError\<close>, so dispatch
  on them never ends in the handler for it. The handler is there: a channel that
  raised the exception would get the outcome \<open>Failed UnsupportedMessage\<close>.
\<close>

theorem unsupported_message_never_raised:
  "(\<forall>(channel, name) \<in> set channels.
      (\<forall>a. channel message recipient \<noteq> Inl (UnsupportedMessageError a))
      \<and> (\<forall>d. send_message_to_channel channel message recipient
              \<noteq> Inr (Failed UnsupportedMessage d)))
   \<and> send_message_to_channel (\<lambda>m r. Inl (UnsupportedMessageError a)) message recipient
       = Inr (Failed UnsupportedMessage a)"
proof (intro conjI ballI)
  fix x assume x: "x \<in> set channels"
  obtain channel name where xn: "x = (channel, name)" by (cases x)
  have 1: "\<forall>a. channel message recipient \<noteq> Inl (UnsupportedMessageError a)"
    using channel_never_unsupported x xn by blast
  then have 2: "\<forall>d. send_message_to_channel channel message recipient
                  \<noteq> Inr (Failed UnsupportedMessage d)"
    by (simp add: dispatch_unsupported_iff)
  from 1 2 show "case x of (channel, name) \<Rightarrow>
      (\<forall>a. channel message recipient \<noteq> Inl (UnsupportedMessageError a))
      \<and> (\<forall>d. send_message_to_channel channel message recipient
              \<noteq> Inr (Failed UnsupportedMessage d))"
    by (simp add: xn)
next
  show "send_message_to_channel (\<lambda>m r. Inl (UnsupportedMessageError a)) message recipient
       = Inr (Failed UnsupportedMessage a)"
    by (simp add: send_message_to_channel_def handler_def)
qed

theorem unsupported_message_never_raised_witness:
  "send_message_to_channel WhatsAppChannel_send (TextMessage ''hi'' 0) ''abc123''
     \<noteq> Inr (Failed UnsupportedMessage
              (''Telefone inv'' @ [CHR 0xE1] @ ''lido: '' @ repr ''abc123''))
   \<and> send_message_to_channel WhatsAppChannel_send (TextMessage ''hi'' 0) ''abc123''
     = Inr (Failed InvalidRecipient
              (''Telefone inv'' @ [CHR 0xE1] @ ''lido: '' @ repr ''abc123''))"
proof -
  have c: "(WhatsAppChannel_send, ''WhatsApp'') \<in> set channels" by (simp add: channels_def)
  have "send_message_to_channel WhatsAppChannel_send (TextMessage ''hi'' 0) ''abc123''
     \<noteq> Inr (Failed UnsupportedMessage
              (''Telefone inv'' @ [CHR 0xE1] @ ''lido: '' @ repr ''abc123''))"
    using unsupported_message_never_raised
      [where message = "TextMessage ''hi'' 0" and recipient = "''abc123''"] c
    by blast
  moreover have "send_message_to_channel WhatsAppChannel_send (TextMessage ''hi'' 0) ''abc123''
     = Inr (Failed InvalidRecipient
              (''Telefone inv'' @ [CHR 0xE1] @ ''lido: '' @ repr ''abc123''))"
    by code_simp
  ultimately show ?thesis by (intro conjI)
qed

lemma same_except_send_date_metadata:
  "same_except_send_date m1 m2 \<Longrightarrow> metadata m1 = metadata m2"
  by (induction m1 m2 rule: same_except_send_date.induct)
    (simp_all add: MediaMessage_metadata_def)

lemma channel_send_metadata:
  assumes "(channel, name) \<in> set channels" and "metadata m1 = metadata m2"
  shows "channel m1 r = channel m2 r"
proof -
  from assms(1) have "channel = WhatsAppChannel_send \<or> channel = TelegramChannel_send
      \<or> channel = FacebookChannel_send \<or> channel = InstagramChannel_send"
    by (auto simp: channels_def)
  then show ?thesis
    by (elim disjE)
      (simp_all only: WhatsAppChannel_send_def TelegramChannel_send_def
        FacebookChannel_send_def InstagramChannel_send_def assms(2))
qed

text \<open>
  Claim C10. Two messages that differ in the send date only have the same metadata,
  and the channels read a message through its metadata only: on each of the four
  channels \<open>send\<close> gives the same result for both, and dispatch ends for both in the
  same outcome, with the same printed lines, so no report and no failure text holds
  the date.
\<close>

theorem dispatch_independent_of_send_date:
  assumes "same_except_send_date m1 m2"
  shows "\<forall>(channel, name) \<in> set channels.
           channel m1 recipient = channel m2 recipient
           \<and> send_message_to_channel channel m1 recipient
               = send_message_to_channel channel m2 recipient
           \<and> (\<exists>out. send_message_to_channel channel m1 recipient = Inr out
                 \<and> send_message_to_channel channel m2 recipient = Inr out)
           \<and> map_sum (\<lambda>e. e) printed (send_message_to_channel channel m1 recipient)
               = map_sum (\<lambda>e. e) printed (send_message_to_channel channel m2 recipient)"
proof (intro ballI)
  fix x assume x: "x \<in> set channels"
  obtain channel name where xn: "x = (channel, name)" by (cases x)
  have c: "(channel, name) \<in> set channels" using x xn by simp
  have e: "channel m1 recipient = channel m2 recipient"
    using channel_send_metadata c same_except_send_date_metadata [OF assms] by blast
  then have d: "send_message_to_channel channel m1 recipient
               = send_message_to_channel channel m2 recipient"
    by (simp add: send_message_to_channel_def)
  obtain out where o: "send_message_to_channel channel m1 recipient = Inr out"
    using shipped_channel_outcome [OF c, of m1 recipient] by blast
  have o2: "\<exists>out. send_message_to_channel channel m1 recipient = Inr out
                 \<and> send_message_to_channel channel m2 recipient = Inr out"
    using o d by (intro exI [of _ out]) simp
  have p: "map_sum (\<lambda>e. e) printed (send_message_to_channel channel m1 recipient)
               = map_sum (\<lambda>e. e) printed (send_message_to_channel channel m2 recipient)"
    by (simp only: d)
  from e d o2 p show "case x of (channel, name) \<Rightarrow>
           channel m1 recipient = channel m2 recipient
           \<and> send_message_to_channel channel m1 recipient
               = send_message_to_channel channel m2 recipient
           \<and> (\<exists>out. send_message_to_channel channel m1 recipient = Inr out
                 \<and> send_message_to_channel channel m2 recipient = Inr out)
           \<and> map_sum (\<lambda>e. e) printed (send_message_to_channel channel m1 recipient)
               = map_sum (\<lambda>e. e) printed (send_message_to_channel channel m2 recipient)"
    unfolding xn prod.case by (intro conjI)
qed

theorem dispatch_independent_of_send_date_witness:
  "same_except_send_date (MediaMessage ''v'' 1 ''/tmp/video.mp4'' ''mp4'' (Some 120))
     (MediaMessage ''v'' 2 ''/tmp/video.mp4'' ''mp4'' (Some 120))
   \<and> send_message_to_channel TelegramChannel_send
         (MediaMessage ''v'' 1 ''/tmp/video.mp4'' ''mp4'' (Some 120)) ''@usuario_valido''
     = send_message_to_channel TelegramChannel_send
         (MediaMessage ''v'' 2 ''/tmp/video.mp4'' ''mp4'' (Some 120)) ''@usuario_valido''
   \<and> send_message_to_channel WhatsAppChannel_send (TextMessage ''hi'' 1) ''abc123''
     = send_message_to_channel WhatsAppChannel_send (TextMessage ''hi'' 2) ''abc123''"
proof -
  have a: "same_except_send_date (MediaMessage ''v'' 1 ''/tmp/video.mp4'' ''mp4'' (Some 120))
     (MediaMessage ''v'' 2 ''/tmp/video.mp4'' ''mp4'' (Some 120))" by simp
  have b: "same_except_send_date (TextMessage ''hi'' 1) (TextMessage ''hi'' 2)" by simp
  have t: "(TelegramChannel_send, ''Telegram'') \<in> set channels" by (simp add: channels_def)
  have w: "(WhatsAppChannel_send, ''WhatsApp'') \<in> set channels" by (simp add: channels_def)
  have 1: "send_message_to_channel TelegramChannel_send
         (MediaMessage ''v'' 1 ''/tmp/video.mp4'' ''mp4'' (Some 120)) ''@usuario_valido''
     = send_message_to_channel TelegramChannel_send
         (MediaMessage ''v'' 2 ''/tmp/video.mp4'' ''mp4'' (Some 120)) ''@usuario_valido''"
    using dispatch_independent_of_send_date [OF a, of "''@usuario_valido''"] t by blast
  have 2: "send_message_to_channel WhatsAppChannel_send (TextMessage ''hi'' 1) ''abc123''
     = send_message_to_channel WhatsAppChannel_send (TextMessage ''hi'' 2) ''abc123''"
    using dispatch_independent_of_send_date [OF b, of "''abc123''"] w by blast
  from a 1 2 show ?thesis by (intro conjI)
qed

lemma dispatch_raises_iff:
  "(\<exists>e'. send_message_to_channel channel m r = Inl e')
     \<longleftrightarrow> (\<exists>e. channel m r = Inl e \<and> (\<not> is_Exception e \<or> (\<exists>e'. str_exn e = Inl e')))"
  by (cases "channel m r")
    (auto simp: send_message_to_channel_def handler_def split: exn.splits sum.splits)

lemma dispatch_caught:
  assumes "channel m r = Inl e" and "is_Exception e" and "str_exn e = Inr d"
  shows "send_message_to_channel channel m r
           = Inr (Failed (if \<exists>a. e = InvalidRecipientError a then InvalidRecipient
                          else if \<exists>a. e = UnsupportedMessageError a then UnsupportedMessage
                          else Unexpected) d)"
  using assms by (cases e) (auto simp: send_message_to_channel_def handler_def)

text \<open>
  Claim C2 as stated fails for a channel whose \<open>send\<close> raises an exception that does
  not derive from \<open>Exception\<close>, which the clause \<open>except Exception\<close> does not
  catch, and for one whose exception raises while \<open>{e}\<close> is formatted in the
  handler: dispatch lets the exception through to its caller.
\<close>

theorem dispatch_lets_exceptions_through_counterexample:
  "send_message_to_channel (\<lambda>m r. Inl KeyboardInterrupt) (TextMessage ''hi'' 0) ''x''
     = Inl KeyboardInterrupt
   \<and> send_message_to_channel (\<lambda>m r. Inl SystemExit) (TextMessage ''hi'' 0) ''x''
     = Inl SystemExit
   \<and> send_message_to_channel (\<lambda>m r. Inl (RaisingStr (OtherException ''boom'')))
        (TextMessage ''hi'' 0) ''x''
     = Inl (OtherException ''boom'')"
  by (simp add: send_message_to_channel_def handler_def)

text \<open>
  Claim C2, amended. On the four channels dispatch never raises: its outcome is the
  report, or \<open>Failed InvalidRecipient\<close> with the validator's message. For any channel,
  a \<open>send\<close> that returns gives the report, and a \<open>send\<close> that raises an exception
  deriving from \<open>Exception\<close> whose \<open>str\<close> returns gives \<open>Failed\<close> with that text:
  \<open>InvalidRecipient\<close> and \<open>UnsupportedMessage\<close> for the two declared classes and
  \<open>Unexpected\<close> for every other one. Dispatch raises exactly when \<open>send\<close> raises an
  exception that does not derive from \<open>Exception\<close> or whose \<open>str\<close> raises.
\<close>

theorem dispatch_always_yields_outcome:
  "(\<forall>(ch, name) \<in> set channels.
        (\<exists>lines. ch message recipient = Inr lines
           \<and> send_message_to_channel ch message recipient = Inr (Sent lines))
        \<or> (\<exists>a. ch message recipient = Inl (InvalidRecipientError a)
           \<and> send_message_to_channel ch message recipient = Inr (Failed InvalidRecipient a)))
   \<and> (\<forall>lines. channel message recipient = Inr lines \<longrightarrow>
        send_message_to_channel channel message recipient = Inr (Sent lines))
   \<and> (\<forall>e d. channel message recipient = Inl e \<and> is_Exception e \<and> str_exn e = Inr d \<longrightarrow>
        send_message_to_channel channel message recipient
          = Inr (Failed (if \<exists>a. e = InvalidRecipientError a then InvalidRecipient
                         else if \<exists>a. e = UnsupportedMessageError a then UnsupportedMessage
                         else Unexpected) d))
   \<and> ((\<exists>e'. send_message_to_channel channel message recipient = Inl e')
        \<longleftrightarrow> (\<exists>e. channel message recipient = Inl e
               \<and> (\<not> is_Exception e \<or> (\<exists>e'. str_exn e = Inl e'))))"
proof (intro conjI ballI allI impI)
  fix x assume x: "x \<in> set channels"
  obtain ch name where xn: "x = (ch, name)" by (cases x)
  have "(ch, name) \<in> set channels" using x xn by simp
  then show "case x of (ch, name) \<Rightarrow>
        (\<exists>lines. ch message recipient = Inr lines
           \<and> send_message_to_channel ch message recipient = Inr (Sent lines))
        \<or> (\<exists>a. ch message recipient = Inl (InvalidRecipientError a)
           \<and> send_message_to_channel ch message recipient = Inr (Failed InvalidRecipient a))"
    unfolding xn prod.case by (rule shipped_channel_outcome)
next
  fix lines assume "channel message recipient = Inr lines"
  then show "send_message_to_channel channel message recipient = Inr (Sent lines)"
    by (rule dispatch_returned)
next
  fix e d
  assume "channel message recipient = Inl e \<and> is_Exception e \<and> str_exn e = Inr d"
  then show "send_message_to_channel channel message recipient
          = Inr (Failed (if \<exists>a. e = InvalidRecipientError a then InvalidRecipient
                         else if \<exists>a. e = UnsupportedMessageError a then UnsupportedMessage
                         else Unexpected) d)"
    using dispatch_caught by blast
next
  show "(\<exists>e'. send_message_to_channel channel message recipient = Inl e')
        \<longleftrightarrow> (\<exists>e. channel message recipient = Inl e
               \<and> (\<not> is_Exception e \<or> (\<exists>e'. str_exn e = Inl e')))"
    by (rule dispatch_raises_iff)
qed

theorem dispatch_always_yields_outcome_witness:
  "is_Exception (KeyError ''type'')
   \<and> str_exn (KeyError ''type'') = Inr ([CHR 0x27] @ ''type'' @ [CHR 0x27])
   \<and> send_message_to_channel (\<lambda>m r. Inl (KeyError ''type'')) (TextMessage ''hi'' 0) ''x''
     = Inr (Failed Unexpected ([CHR 0x27] @ ''type'' @ [CHR 0x27]))
   \<and> send_message_to_channel InstagramChannel_send (TextMessage ''hi'' 0)
        (replicate 100 CHR ''u'')
     = Inr (Failed InvalidRecipient
         (''Usu'' @ [CHR 0xE1] @ ''rio inv'' @ [CHR 0xE1] @ ''lido: ''
            @ repr (replicate 100 CHR ''u'')))"
proof -
  have a: "is_Exception (KeyError ''type'')" by simp
  have r: "str_exn (KeyError ''type'') = Inr ([CHR 0x27] @ ''type'' @ [CHR 0x27])" by code_simp
  have 1: "send_message_to_channel (\<lambda>m r. Inl (KeyError ''type'')) (TextMessage ''hi'' 0) ''x''
     = Inr (Failed Unexpected ([CHR 0x27] @ ''type'' @ [CHR 0x27]))"
    using dispatch_always_yields_outcome
      [where channel = "\<lambda>m r. Inl (KeyError ''type'')" and message = "TextMessage ''hi'' 0"
         and recipient = "''x''"] a r
    by auto
  have i: "InstagramChannel_send (TextMessage ''hi'' 0) (replicate 100 CHR ''u'')
     = Inl (InvalidRecipientError
         (''Usu'' @ [CHR 0xE1] @ ''rio inv'' @ [CHR 0xE1] @ ''lido: ''
            @ repr (replicate 100 CHR ''u'')))"
    by (simp add: InstagramChannel_send_def validate_username_eq)
      (code_simp)
  have ie: "is_Exception (InvalidRecipientError
         (''Usu'' @ [CHR 0xE1] @ ''rio inv'' @ [CHR 0xE1] @ ''lido: ''
            @ repr (replicate 100 CHR ''u'')))" by simp
  have 2: "send_message_to_channel InstagramChannel_send (TextMessage ''hi'' 0)
        (replicate 100 CHR ''u'')
     = Inr (Failed InvalidRecipient
         (''Usu'' @ [CHR 0xE1] @ ''rio inv'' @ [CHR 0xE1] @ ''lido: ''
            @ repr (replicate 100 CHR ''u'')))"
    using dispatch_always_yields_outcome
      [where channel = InstagramChannel_send and message = "TextMessage ''hi'' 0"
         and recipient = "replicate 100 CHR ''u''"] i ie
    by auto
  from a r 1 2 show ?thesis by (intro conjI)
qed

section \<open>The two failing inputs, through dispatch\<close>

theorem validate_phone_accepts_superscript_digits_witness:
  "WhatsAppChannel_send (TextMessage ''hi'' 0)
        [CHR 0xB2, CHR 0xB2, CHR 0xB2, CHR 0xB2, CHR 0xB2, CHR 0xB2, CHR 0xB2, CHR 0xB2]
       = Inr [''[WhatsApp] Enviando para ''
                 @ [CHR 0xB2, CHR 0xB2, CHR 0xB2, CHR 0xB2, CHR 0xB2, CHR 0xB2, CHR 0xB2, CHR 0xB2]
                 @ '' -> tipo: text, texto: hi'',
               ''  -> Enviado com sucesso via WhatsApp.'']"
proof -
  have "send_message_to_channel WhatsAppChannel_send (TextMessage ''hi'' 0)
        [CHR 0xB2, CHR 0xB2, CHR 0xB2, CHR 0xB2, CHR 0xB2, CHR 0xB2, CHR 0xB2, CHR 0xB2]
       = Inr (Sent [''[WhatsApp] Enviando para ''
                 @ [CHR 0xB2, CHR 0xB2, CHR 0xB2, CHR 0xB2, CHR 0xB2, CHR 0xB2, CHR 0xB2, CHR 0xB2]
                 @ '' -> tipo: text, texto: hi'',
               ''  -> Enviado com sucesso via WhatsApp.''])"
    using validate_phone_accepts_superscript_digits by (simp only:)
  then show ?thesis
    by (auto simp: send_message_to_channel_def handler_def
        split: sum.splits exn.splits if_splits)
qed

theorem telegram_error_carries_stripped_recipient_witness:
  "send_message_to_channel TelegramChannel_send (TextMessage ''hi'' 0) '' 12345 ''
     = Inr (Failed InvalidRecipient
         (''Telefone inv'' @ [CHR 0xE1] @ ''lido: '' @ [CHR 0x27] @ ''12345'' @ [CHR 0x27]))"
proof -
  have "TelegramChannel_send (TextMessage ''hi'' 0) '' 12345 ''
     = Inl (InvalidRecipientError
         (''Telefone inv'' @ [CHR 0xE1] @ ''lido: '' @ [CHR 0x27] @ ''12345'' @ [CHR 0x27]))"
    using telegram_error_carries_stripped_recipient by (simp only:)
  then show ?thesis by (rule dispatch_invalid_recipient)
qed

end
